theory Spec2Isabelle
  imports Complex_Main "HOL-Library.Sublist"
begin

section \<open>mockstep: a walking-pattern sensor simulator for the emulator console\<close>

text \<open>
  A shallow embedding of \<^verbatim>\<open>src/mockstep.py\<close>.

  \<^item> Python floats are modelled as the real numbers they denote: arithmetic is exact,
    there is no rounding, no infinity and no NaN. A decimal literal such as \<^verbatim>\<open>9.8\<close>
    is the real number 98/10.
  \<^item> Python strings and byte strings are \<open>string\<close> (lists of characters).
  \<^item> Every call that reaches the outside world is recorded as an \<open>event\<close>, in program
    order. The outcome of a call on the transport (opening it, \<^verbatim>\<open>write\<close>,
    \<^verbatim>\<open>read_until\<close>) and of \<^verbatim>\<open>time.sleep\<close> is decided by the environment and
    passed in as a parameter: the call returns a value or raises an exception. Console
    output (\<^verbatim>\<open>print\<close>) and \<^verbatim>\<open>close\<close> are taken to return normally.
\<close>

subsection \<open>Constants\<close>

definition GRAPH_WIDTH :: int where
  "GRAPH_WIDTH = 50"

definition AMPLITUDE :: real where
  "AMPLITUDE = 2.0"

definition Y_BASELINE :: real where
  "Y_BASELINE = 9.8"

subsection \<open>String formatting\<close>

text \<open>The newline character \<^verbatim>\<open>\n\<close>.\<close>

definition newline :: char where
  "newline = CHR 0x0A"

text \<open>The character of a decimal digit.\<close>

definition digit_char :: "nat \<Rightarrow> char" where
  "digit_char d = ''0123456789'' ! (d mod 10)"

text \<open>\<^verbatim>\<open>str(n)\<close> for a natural number: its decimal digits, most significant first.\<close>

fun str_nat :: "nat \<Rightarrow> string" where
  "str_nat n = (if n < 10 then [digit_char n] else str_nat (n div 10) @ [digit_char (n mod 10)])"

declare str_nat.simps [simp del]

text \<open>\<^verbatim>\<open>str(i)\<close> for a Python integer.\<close>

definition str_int :: "int \<Rightarrow> string" where
  "str_int i = (if i < 0 then CHR ''-'' # str_nat (nat (- i)) else str_nat (nat i))"

text \<open>
  Rounding to the nearest integer, ties to the even neighbour: the rounding that
  \<^verbatim>\<open>format\<close> applies to the exact value of its argument.
\<close>

definition round_half_even :: "real \<Rightarrow> int" where
  "round_half_even r =
     (let f = \<lfloor>r\<rfloor>; d = r - of_int f
      in if d < 1 / 2 then f
         else if 1 / 2 < d then f + 1
         else if even f then f else f + 1)"

text \<open>
  The format specification \<^verbatim>\<open>.2f\<close>: an optional minus sign, the integer part, a point
  and two decimals. A negative value keeps its sign even when it rounds to zero.
\<close>

definition format_2f :: "real \<Rightarrow> string" where
  "format_2f v =
     (let cents = nat (round_half_even (\<bar>v\<bar> * 100))
      in (if v < 0 then ''-'' else '''')
         @ str_nat (cents div 100)
         @ [CHR ''.'', digit_char (cents mod 100 div 10), digit_char (cents mod 10)])"

text \<open>A minimum field width: numbers are aligned to the right, padded with spaces.\<close>

definition rjust :: "nat \<Rightarrow> string \<Rightarrow> string" where
  "rjust w s = replicate (w - length s) CHR '' '' @ s"

text \<open>\<^verbatim>\<open>int(x)\<close> for a float: truncation towards zero.\<close>

definition py_int :: "real \<Rightarrow> int" where
  "py_int r = (if 0 \<le> r then \<lfloor>r\<rfloor> else \<lceil>r\<rceil>)"

text \<open>\<^verbatim>\<open>c * n\<close> for a one-character string: empty when \<open>n\<close> is not positive.\<close>

definition py_repeat :: "char \<Rightarrow> int \<Rightarrow> string" where
  "py_repeat c n = replicate (nat n) c"

text \<open>\<^verbatim>\<open>needle in hay\<close> for byte strings: \<open>needle\<close> occurs as a contiguous piece.\<close>

fun bytes_in :: "string \<Rightarrow> string \<Rightarrow> bool" where
  "bytes_in needle [] = (needle = [])"
| "bytes_in needle (c # cs) = (prefix needle (c # cs) \<or> bytes_in needle cs)"

subsection \<open>Exceptions, events and effects\<close>

text \<open>
  The three classes of exception the program tells apart: \<^verbatim>\<open>except Exception\<close> catches
  \<open>Exception\<close> (with the text that \<^verbatim>\<open>str(e)\<close> gives) and neither of the other two.
\<close>

datatype exn = KeyboardInterrupt | SystemExit | Exception string

datatype session = Telnet string int

datatype event =
    Open string int nat
  | Write session string
  | ReadUntil session string nat
  | Close session
  | Print string
  | Sleep real

text \<open>
  A computation is the list of calls it made and how it ended: \<open>Inl e\<close> when the
  exception \<open>e\<close> left it, \<open>Inr a\<close> when it returned \<open>a\<close>.
\<close>

type_synonym 'a io = "event list \<times> (exn + 'a)"

definition ret :: "'a \<Rightarrow> 'a io" where
  "ret a = ([], Inr a)"

text \<open>A call to the outside world: the event, and the outcome the environment gives it.\<close>

definition call :: "event \<Rightarrow> exn + 'a \<Rightarrow> 'a io" where
  "call ev res = ([ev], res)"

definition print :: "string \<Rightarrow> unit io" where
  "print s = call (Print s) (Inr ())"

text \<open>Sequencing: the second computation runs only when the first returned.\<close>

definition bind :: "'a io \<Rightarrow> ('a \<Rightarrow> 'b io) \<Rightarrow> 'b io" where
  "bind m f =
     (case m of
        (evs, Inl e) \<Rightarrow> (evs, Inl e)
      | (evs, Inr a) \<Rightarrow> (case f a of (evs', r) \<Rightarrow> (evs @ evs', r)))"

text \<open>
  \<^verbatim>\<open>try: m except ...: h\<close>. The handler \<open>h\<close> gives \<open>None\<close> for an exception that no
  \<^verbatim>\<open>except\<close> clause matches, which then goes on unwinding.
\<close>

definition try_except :: "'a io \<Rightarrow> (exn \<Rightarrow> 'a io option) \<Rightarrow> 'a io" where
  "try_except m h =
     (case m of
        (evs, Inr a) \<Rightarrow> (evs, Inr a)
      | (evs, Inl e) \<Rightarrow>
          (case h e of
             None \<Rightarrow> (evs, Inl e)
           | Some (evs', r) \<Rightarrow> (evs @ evs', r)))"


subsection \<open>\<^verbatim>\<open>plot_data_point\<close>\<close>

text \<open>Float division: a zero divisor raises \<^verbatim>\<open>ZeroDivisionError\<close>.\<close>

definition truediv :: "real \<Rightarrow> real \<Rightarrow> real io" where
  "truediv a b =
     (if b = 0 then ([], Inl (Exception ''float division by zero'')) else ret (a / b))"

text \<open>The computation of \<^verbatim>\<open>bar_length\<close>, the first four statements of the function.\<close>

definition bar_length :: "real \<Rightarrow> int io" where
  "bar_length y_value =
     (let min_y = Y_BASELINE - AMPLITUDE;
          max_y = Y_BASELINE + AMPLITUDE;
          y_value_clamped = max min_y (min y_value max_y)
      in bind (truediv (y_value_clamped - min_y) (max_y - min_y)) (\<lambda>normalized_value.
         ret (py_int (normalized_value * of_int GRAPH_WIDTH))))"

definition plot_data_point :: "real \<Rightarrow> unit io" where
  "plot_data_point y_value =
     bind (bar_length y_value) (\<lambda>bar_length.
     let bar = py_repeat CHR ''#'' bar_length in
     print (rjust 5 (format_2f y_value) @ '' | '' @ bar))"

subsection \<open>\<^verbatim>\<open>generate_walking_acceleration\<close>\<close>

definition generate_walking_acceleration :: "int \<Rightarrow> real \<times> real \<times> real" where
  "generate_walking_acceleration step =
     (let frequency = 1.25;
          x = 0.0;
          y = Y_BASELINE + AMPLITUDE * sin (frequency * of_int step);
          z = 0.0
      in (x, y, z))"

subsection \<open>\<^verbatim>\<open>connect_to_emulator\<close>\<close>

text \<open>
  What the environment answers to the four transport calls of the handshake, in the
  order of the calls: opening the connection, reading the greeting, writing the
  \<^verbatim>\<open>auth\<close> line and reading the reply to it.
\<close>

record conn_env =
  open_res :: "exn + unit"
  greeting_res :: "exn + string"
  auth_write_res :: "exn + unit"
  auth_reply_res :: "exn + string"

text \<open>\<^verbatim>\<open>not auth_token\<close>: the token is \<^verbatim>\<open>None\<close> or the empty string.\<close>

definition token_missing :: "string option \<Rightarrow> bool" where
  "token_missing auth_token = (case auth_token of None \<Rightarrow> True | Some t \<Rightarrow> t = [])"

text \<open>\<^verbatim>\<open>f'{auth_token}'\<close>.\<close>

definition token_text :: "string option \<Rightarrow> string" where
  "token_text auth_token = (case auth_token of None \<Rightarrow> ''None'' | Some t \<Rightarrow> t)"

definition connect_to_emulator ::
  "conn_env \<Rightarrow> string \<Rightarrow> int \<Rightarrow> string option \<Rightarrow> session option io" where
  "connect_to_emulator env host port auth_token =
     try_except
       (bind (call (Open host port 10) (open_res env)) (\<lambda>_.
        let emulator = Telnet host port in
        bind (call (ReadUntil emulator ''OK'' 10) (greeting_res env)) (\<lambda>_.
        if token_missing auth_token then
          bind (print ''Authentication token is missing...'') (\<lambda>_. ret None)
        else
          bind (call (Write emulator (''auth '' @ token_text auth_token @ [newline]))
                  (auth_write_res env)) (\<lambda>_.
          bind (call (ReadUntil emulator ''OK'' 10) (auth_reply_res env)) (\<lambda>response.
          if bytes_in ''KO'' response then
            bind (print ''Authentication failed.'') (\<lambda>_. ret None)
          else
            bind (print (''Connected and authenticated with emulator on port ''
                           @ str_int port @ ''.'')) (\<lambda>_.
            ret (Some emulator)))))))
       (\<lambda>e. case e of
               Exception msg \<Rightarrow>
                 Some (bind (print (''An error occurred during connection: '' @ msg)) (\<lambda>_.
                       ret None))
             | _ \<Rightarrow> None)"

subsection \<open>\<^verbatim>\<open>set_sensor_data\<close>\<close>

text \<open>What the environment answers to the write of a command and to the read of its
  acknowledgement.\<close>

record tx_env =
  write_res :: "exn + unit"
  ack_res :: "exn + string"

definition sensor_command :: "string \<Rightarrow> real \<Rightarrow> real \<Rightarrow> real \<Rightarrow> string" where
  "sensor_command sensor x y z =
     ''sensor set '' @ sensor @ '' '' @ format_2f x @ '':'' @ format_2f y @ '':''
       @ format_2f z @ [newline]"

definition set_sensor_data ::
  "tx_env \<Rightarrow> session \<Rightarrow> string \<Rightarrow> real \<Rightarrow> real \<Rightarrow> real \<Rightarrow> unit io" where
  "set_sensor_data env emulator sensor x y z =
     try_except
       (let command = sensor_command sensor x y z in
        bind (call (Write emulator command) (write_res env)) (\<lambda>_.
        bind (call (ReadUntil emulator ''OK'' 2) (ack_res env)) (\<lambda>_.
        ret ())))
       (\<lambda>e. case e of
               Exception msg \<Rightarrow>
                 Some (print (''An error occurred while setting '' @ sensor @ '' data: ''
                                @ msg))
             | _ \<Rightarrow> None)"

subsection \<open>\<^verbatim>\<open>run_simulation\<close>\<close>

record loop_state =
  step_counter :: int
  previous_y :: real
  was_rising :: bool

definition initial_state :: loop_state where
  "initial_state = \<lparr>step_counter = 0, previous_y = Y_BASELINE, was_rising = False\<rparr>"

definition step_impact_marker :: string where
  "step_impact_marker = ''-------------------- STEP IMPACT --------------------''"

text \<open>The edge detector: the part of the loop body that follows the plot, up to the
  increment of the step counter.\<close>

definition detect_step :: "real \<Rightarrow> loop_state \<Rightarrow> loop_state io" where
  "detect_step y st =
     (let is_rising_now = (y > previous_y st) in
      bind (if was_rising st \<and> \<not> is_rising_now then print step_impact_marker else ret ()) (\<lambda>_.
      ret \<lparr>step_counter = step_counter st + 1, previous_y = y, was_rising = is_rising_now\<rparr>))"

text \<open>What the environment answers during one tick: to the transmission and to the
  sleep that ends the tick.\<close>

record tick_env =
  tx :: tx_env
  sleep_res :: "exn + unit"

text \<open>One pass through the body of \<^verbatim>\<open>while True\<close>.\<close>

definition tick :: "session \<Rightarrow> tick_env \<Rightarrow> loop_state \<Rightarrow> loop_state io" where
  "tick emulator env st =
     (case generate_walking_acceleration (step_counter st) of (x, y, z) \<Rightarrow>
        bind (set_sensor_data (tx env) emulator ''acceleration'' x y z) (\<lambda>_.
        bind (plot_data_point y) (\<lambda>_.
        bind (detect_step y st) (\<lambda>st'.
        bind (call (Sleep 0.1) (sleep_res env)) (\<lambda>_.
        ret st')))))"

text \<open>
  \<^verbatim>\<open>while True\<close> has no exit of its own: it ends only when an exception leaves a
  tick. The environment is given tick by tick; \<open>run_loop\<close> returns the calls made and
  the exception that ended the loop, or \<open>None\<close> when the loop is still running after
  the last tick given.
\<close>

fun run_loop :: "session \<Rightarrow> tick_env list \<Rightarrow> loop_state \<Rightarrow> (event list \<times> exn) option" where
  "run_loop emulator [] st = None"
| "run_loop emulator (env # envs) st =
     (case tick emulator env st of
        (evs, Inl e) \<Rightarrow> Some (evs, e)
      | (evs, Inr st') \<Rightarrow>
          (case run_loop emulator envs st' of
             None \<Rightarrow> None
           | Some (evs', e) \<Rightarrow> Some (evs @ evs', e)))"



text \<open>Feeding the edge detector a sequence of vertical values, one per tick: the
  lines it prints at each value, and the state it is left in.\<close>

fun feed :: "real list \<Rightarrow> loop_state \<Rightarrow> event list list \<times> loop_state" where
  "feed [] st = ([], st)"
| "feed (y # ys) st =
     (case detect_step y st of
        (evs, Inr st') \<Rightarrow> (case feed ys st' of (out, st'') \<Rightarrow> (evs # out, st''))
      | (evs, Inl e) \<Rightarrow> ([evs], st))"

subsection \<open>Vocabulary of the properties\<close>

fun is_write :: "event \<Rightarrow> bool" where
  "is_write (Write s c) = True"
| "is_write _ = False"


text \<open>The calls that go to the network: everything but console output and sleeping.\<close>

fun is_network_call :: "event \<Rightarrow> bool" where
  "is_network_call (Print s) = False"
| "is_network_call (Sleep d) = False"
| "is_network_call _ = True"

definition is_digit :: "char \<Rightarrow> bool" where
  "is_digit c = (c \<in> set ''0123456789'')"

definition strip_sign :: "string \<Rightarrow> string" where
  "strip_sign s = (case s of [] \<Rightarrow> [] | c # cs \<Rightarrow> if c = CHR ''-'' then cs else s)"

text \<open>A rendering with exactly two decimals: after an optional sign, one or more
  digits, a point, and two digits.\<close>

definition two_decimals :: "string \<Rightarrow> bool" where
  "two_decimals s =
     (case rev (strip_sign s) of
        b # a # p # ip \<Rightarrow>
          is_digit b \<and> is_digit a \<and> p = CHR ''.'' \<and> ip \<noteq> [] \<and> list_all is_digit ip
      | _ \<Rightarrow> False)"

text \<open>The plotter as the specification words it: clamp, normalise, take the floor.\<close>

definition spec_clamp :: "real \<Rightarrow> real \<Rightarrow> real \<Rightarrow> real" where
  "spec_clamp lo hi v = (if v < lo then lo else if hi < v then hi else v)"

definition spec_bar :: "real \<Rightarrow> int" where
  "spec_bar v =
     (let lo = 9.8 - 2.0; hi = 9.8 + 2.0; t = (spec_clamp lo hi v - lo) / (hi - lo)
      in \<lfloor>t * 50\<rfloor>)"

text \<open>An outcome that \<^verbatim>\<open>except Exception\<close> does not catch.\<close>

definition escapes :: "exn + 'a \<Rightarrow> bool" where
  "escapes r = (case r of Inl (Exception m) \<Rightarrow> False | Inl _ \<Rightarrow> True | Inr _ \<Rightarrow> False)"

text \<open>The transmission is cut short by an exception that \<open>set_sensor_data\<close> lets through.\<close>

definition uncaught :: "tx_env \<Rightarrow> bool" where
  "uncaught env =
     (case write_res env of Inl e \<Rightarrow> escapes (write_res env) | Inr _ \<Rightarrow> escapes (ack_res env))"


definition error_log :: "string \<Rightarrow> string \<Rightarrow> event" where
  "error_log sensor m = Print (''An error occurred while setting '' @ sensor @ '' data: '' @ m)"

text \<open>The calls of a tick that follow the transmission.\<close>

definition tick_tail :: "real \<Rightarrow> loop_state \<Rightarrow> event list" where
  "tick_tail y st =
     Print (rjust 5 (format_2f y) @ '' | '' @ py_repeat CHR ''#'' (spec_bar y))
       # (if was_rising st \<and> \<not> previous_y st < y then [Print step_impact_marker] else [])
       @ [Sleep 0.1]"

section \<open>Properties\<close>

subsection \<open>Sequencing and handlers\<close>

lemma bind_Inl [simp]: "bind (evs, Inl e) f = (evs, Inl e)"
  by (simp add: bind_def)

lemma bind_Inr [simp]: "bind (evs, Inr a) f = (evs @ fst (f a), snd (f a))"
  by (simp add: bind_def split: prod.splits)

lemma try_except_Inr [simp]: "try_except (evs, Inr a) h = (evs, Inr a)"
  by (simp add: try_except_def)

lemma try_except_Inl [simp]:
  "try_except (evs, Inl e) h =
     (case h e of None \<Rightarrow> (evs, Inl e) | Some k \<Rightarrow> (evs @ fst k, snd k))"
  by (simp add: try_except_def split: option.splits prod.splits)

subsection \<open>Formatting\<close>

lemma is_digit_digit_char: "is_digit (digit_char d)"
proof -
  have "''0123456789'' ! (d mod 10) \<in> set ''0123456789''"
    by (rule nth_mem) simp
  then show ?thesis
    unfolding is_digit_def digit_char_def .
qed

lemma str_nat_digits: "list_all is_digit (str_nat n) \<and> str_nat n \<noteq> []"
proof (induction n rule: str_nat.induct)
  case (1 n)
  show ?case
  proof (cases "n < 10")
    case True
    then show ?thesis by (simp add: str_nat.simps [of n] is_digit_digit_char)
  next
    case False
    with 1 show ?thesis by (simp add: str_nat.simps [of n] is_digit_digit_char)
  qed
qed

lemma strip_sign_digits:
  "list_all is_digit s \<Longrightarrow> s \<noteq> [] \<Longrightarrow> strip_sign (s @ t) = s @ t"
  by (cases s) (auto simp: strip_sign_def is_digit_def split: list.splits)

lemma two_decimals_format_2f: "two_decimals (format_2f v)"
proof -
  let ?c = "nat (round_half_even (\<bar>v\<bar> * 100))"
  let ?tail = "[CHR ''.'', digit_char (?c mod 100 div 10), digit_char (?c mod 10)]"
  have d: "list_all is_digit (str_nat (?c div 100))" and ne: "str_nat (?c div 100) \<noteq> []"
    using str_nat_digits by blast+
  have "strip_sign (format_2f v) = str_nat (?c div 100) @ ?tail"
  proof (cases "v < 0")
    case True
    then show ?thesis by (simp add: format_2f_def strip_sign_def Let_def)
  next
    case False
    then show ?thesis using strip_sign_digits [OF d ne, of ?tail]
      by (simp add: format_2f_def Let_def)
  qed
  then show ?thesis
    using d ne by (simp add: two_decimals_def is_digit_digit_char)
qed

lemma format_2f_rest: "format_2f (49 / 5) = ''9.80''" "format_2f 0 = ''0.00''"
  by (simp_all add: format_2f_def round_half_even_def str_nat.simps digit_char_def)

lemma reset_command_line:
  "sensor_command ''acceleration'' 0 (49 / 5) 0
     = ''sensor set acceleration 0.00:9.80:0.00'' @ [CHR 0x0A]"
  by (simp add: sensor_command_def format_2f_rest newline_def)

lemma bytes_in_iff: "bytes_in needle hay \<longleftrightarrow> (\<exists>p s. hay = p @ needle @ s)"
proof (induction hay)
  case Nil
  then show ?case by auto
next
  case (Cons c cs)
  show ?case
  proof
    assume "bytes_in needle (c # cs)"
    then consider "prefix needle (c # cs)" | "bytes_in needle cs" by auto
    then show "\<exists>p s. c # cs = p @ needle @ s"
    proof cases
      case 1
      then obtain s where "c # cs = needle @ s" by (auto simp: prefix_def)
      then have "c # cs = [] @ needle @ s" by simp
      then show ?thesis by blast
    next
      case 2
      with Cons obtain p s where "cs = p @ needle @ s" by auto
      then have "c # cs = (c # p) @ needle @ s" by simp
      then show ?thesis by blast
    qed
  next
    assume "\<exists>p s. c # cs = p @ needle @ s"
    then obtain p s where eq: "c # cs = p @ needle @ s" by auto
    show "bytes_in needle (c # cs)"
    proof (cases p)
      case Nil
      with eq have "prefix needle (c # cs)" by (simp add: prefix_def)
      then show ?thesis by simp
    next
      case (Cons a p')
      with eq have "cs = p' @ needle @ s" by simp
      with Cons.IH show ?thesis by auto
    qed
  qed
qed

subsection \<open>The plotter\<close>

lemma bar_length_value: "bar_length v = ([], Inr (spec_bar v))"
proof -
  have c: "max (39 / 5) (min v (59 / 5)) = spec_clamp (39 / 5) (59 / 5) v"
    by (simp add: spec_clamp_def max_def min_def)
  have nn: "39 / 5 \<le> spec_clamp (39 / 5) (59 / 5) v"
    by (simp add: spec_clamp_def)
  show ?thesis
    using nn
    by (simp add: bar_length_def truediv_def bind_def ret_def py_int_def spec_bar_def
        Y_BASELINE_def AMPLITUDE_def GRAPH_WIDTH_def c)
qed

lemma spec_bar_mono: "v1 \<le> v2 \<Longrightarrow> spec_bar v1 \<le> spec_bar v2"
  unfolding spec_bar_def Let_def
  by (intro floor_mono mult_right_mono divide_right_mono diff_right_mono)
     (auto simp: spec_clamp_def)

lemma spec_bar_range: "0 \<le> spec_bar v \<and> spec_bar v \<le> 50"
proof -
  have "0 \<le> (spec_clamp (39 / 5) (59 / 5) v - 39 / 5) / 4 * 50"
    by (simp add: spec_clamp_def)
  moreover have "(spec_clamp (39 / 5) (59 / 5) v - 39 / 5) / 4 * 50 \<le> 50"
    by (simp add: spec_clamp_def)
  ultimately show ?thesis
    by (simp add: spec_bar_def Let_def floor_le_iff le_floor_iff)
qed

lemma spec_bar_rest: "spec_bar (49 / 5) = 25"
  by (simp add: spec_bar_def spec_clamp_def)

lemma plot_data_point_returns:
  "plot_data_point v
     = ([Print (rjust 5 (format_2f v) @ '' | '' @ py_repeat CHR ''#'' (spec_bar v))], Inr ())"
  by (simp add: plot_data_point_def bar_length_value print_def call_def)

subsection \<open>Transmission, tick and loop\<close>

lemma set_sensor_data_cases:
  "set_sensor_data env em sensor x y z =
     (case write_res env of
        Inl (Exception m) \<Rightarrow>
          ([Write em (sensor_command sensor x y z), error_log sensor m], Inr ())
      | Inl e \<Rightarrow> ([Write em (sensor_command sensor x y z)], Inl e)
      | Inr _ \<Rightarrow>
          (case ack_res env of
             Inl (Exception m) \<Rightarrow>
               ([Write em (sensor_command sensor x y z), ReadUntil em ''OK'' 2,
                 error_log sensor m], Inr ())
           | Inl e \<Rightarrow>
               ([Write em (sensor_command sensor x y z), ReadUntil em ''OK'' 2], Inl e)
           | Inr _ \<Rightarrow>
               ([Write em (sensor_command sensor x y z), ReadUntil em ''OK'' 2], Inr ())))"
  by (simp add: set_sensor_data_def call_def print_def ret_def error_log_def Let_def
      split: sum.splits exn.splits)


lemma set_sensor_data_raises_iff:
  "(\<exists>e. snd (set_sensor_data env em sensor x y z) = Inl e) \<longleftrightarrow> uncaught env"
  by (auto simp: set_sensor_data_cases uncaught_def escapes_def split: sum.splits exn.splits)

lemma detect_step_returns:
  "detect_step y st =
     (if was_rising st \<and> \<not> previous_y st < y then [Print step_impact_marker] else [],
      Inr \<lparr>step_counter = step_counter st + 1, previous_y = y,
           was_rising = previous_y st < y\<rparr>)"
  by (simp add: detect_step_def print_def call_def ret_def Let_def)

lemma tick_cases:
  "tick em env st =
     (case generate_walking_acceleration (step_counter st) of (x, y, z) \<Rightarrow>
        (case set_sensor_data (tx env) em ''acceleration'' x y z of
           (evs, Inl e) \<Rightarrow> (evs, Inl e)
         | (evs, Inr _) \<Rightarrow>
             (evs @ tick_tail y st,
              case sleep_res env of
                Inl e \<Rightarrow> Inl e
              | Inr _ \<Rightarrow> Inr \<lparr>step_counter = step_counter st + 1, previous_y = y,
                               was_rising = previous_y st < y\<rparr>)))"
  by (simp add: tick_def plot_data_point_returns detect_step_returns tick_tail_def call_def
      ret_def split: prod.splits sum.splits)


text \<open>A tick is left by an exception exactly when the transmission lets one through
  or the sleep raises one.\<close>

lemma tick_raises_iff:
  "(\<exists>e. snd (tick em env st) = Inl e)
     \<longleftrightarrow> uncaught (tx env) \<or> (\<exists>e. sleep_res env = Inl e)"
proof -
  obtain x y z where g: "generate_walking_acceleration (step_counter st) = (x, y, z)"
    by (cases "generate_walking_acceleration (step_counter st)")
  obtain evs r where s: "set_sensor_data (tx env) em ''acceleration'' x y z = (evs, r)"
    by (cases "set_sensor_data (tx env) em ''acceleration'' x y z")
  have u: "(\<exists>e. r = Inl e) \<longleftrightarrow> uncaught (tx env)"
    using set_sensor_data_raises_iff [of "tx env" em "''acceleration''" x y z] s by simp
  show ?thesis
    using u by (cases r; cases "sleep_res env") (auto simp: tick_cases g s)
qed

text \<open>The loop ends within the ticks given exactly when one of them is left by an
  exception; otherwise it is still running.\<close>

lemma run_loop_terminates_iff:
  "run_loop em envs st \<noteq> None
     \<longleftrightarrow> (\<exists>env \<in> set envs. uncaught (tx env) \<or> (\<exists>e. sleep_res env = Inl e))"
proof (induction envs arbitrary: st)
  case Nil
  then show ?case by simp
next
  case (Cons env envs)
  obtain evs r where t: "tick em env st = (evs, r)"
    by (cases "tick em env st")
  show ?case
  proof (cases r)
    case (Inl e)
    then have "uncaught (tx env) \<or> (\<exists>e. sleep_res env = Inl e)"
      using tick_raises_iff [of em env st] t by auto
    with Inl t show ?thesis by simp
  next
    case (Inr st')
    then have "\<not> (uncaught (tx env) \<or> (\<exists>e. sleep_res env = Inl e))"
      using tick_raises_iff [of em env st] t by auto
    with Inr t Cons.IH [of st'] show ?thesis
      by (auto split: option.splits)
  qed
qed





section \<open>The claims\<close>

text \<open>
  C3. Fed the vertical values 9.8, 10.5, 11.0, 10.2, 9.9 as five successive ticks, from
  the initial edge state (previous value 9.8, not rising), the edge detector of the loop
  prints exactly one step-impact marker, while it processes the fourth value (index 3)
  and nothing at the other four. After the first three values the detector holds the
  peak 11.0 (index 2) as previous value and is rising: the marker reports that peak.
\<close>

theorem edge_detector_sequence:
  "feed [9.8, 10.5, 11.0, 10.2, 9.9] \<lparr>step_counter = 0, previous_y = 9.8, was_rising = False\<rparr>
     = ([[], [], [], [Print step_impact_marker], []],
        \<lparr>step_counter = 5, previous_y = 9.9, was_rising = False\<rparr>)
   \<and> feed [9.8, 10.5, 11.0] \<lparr>step_counter = 0, previous_y = 9.8, was_rising = False\<rparr>
     = ([[], [], []], \<lparr>step_counter = 3, previous_y = 11.0, was_rising = True\<rparr>)
   \<and> initial_state = \<lparr>step_counter = 0, previous_y = 9.8, was_rising = False\<rparr>"
  by (simp add: detect_step_def initial_state_def Y_BASELINE_def print_def call_def ret_def)

text \<open>
  C4. For every step index \<open>n\<close> (non-negative or not) the signal generator returns the
  triple with \<open>x = 0\<close>, \<open>z = 0\<close> and \<open>y = 9.8 + 2.0 * sin (1.25 * n)\<close>, and \<open>y\<close> lies
  between 7.8 and 11.8. The generator is a function of the step index alone, so equal
  inputs give equal outputs. Floats are read as real numbers here.
\<close>

theorem generate_walking_acceleration_formula:
  "generate_walking_acceleration n = (0, 9.8 + 2.0 * sin (1.25 * of_int n), 0)
   \<and> 7.8 \<le> fst (snd (generate_walking_acceleration n))
   \<and> fst (snd (generate_walking_acceleration n)) \<le> 11.8"
proof -
  define s where "s = sin (1.25 * real_of_int n)"
  have b: "- 1 \<le> s" "s \<le> 1"
    by (simp_all add: s_def)
  have g: "generate_walking_acceleration n = (0, 9.8 + 2.0 * s, 0)"
    by (simp add: generate_walking_acceleration_def Y_BASELINE_def AMPLITUDE_def s_def)
  have "(7.8::real) \<le> 9.8 + 2.0 * s" "9.8 + 2.0 * s \<le> (11.8::real)"
    using b by simp_all
  then show ?thesis
    unfolding g s_def by simp
qed

theorem generate_walking_acceleration_formula_witness:
  "generate_walking_acceleration 0 = (0, 9.8, 0)"
  using generate_walking_acceleration_formula [of 0] by simp

text \<open>
  C6. Whatever the transport answers, the first call of \<open>set_sensor_data\<close> writes the
  line \<^verbatim>\<open>sensor set <sensor> <x>:<y>:<z>\n\<close> in which each coordinate is rendered with
  exactly two decimals; for the sensor \<^verbatim>\<open>acceleration\<close> and the triple (0, 9.8, 0) the
  line is \<^verbatim>\<open>sensor set acceleration 0.00:9.80:0.00\n\<close>.
\<close>

theorem sensor_update_wire_format:
  "take 1 (fst (set_sensor_data env em sensor x y z))
     = [Write em (''sensor set '' @ sensor @ '' '' @ format_2f x @ '':'' @ format_2f y
                    @ '':'' @ format_2f z @ [CHR 0x0A])]
   \<and> two_decimals (format_2f x) \<and> two_decimals (format_2f y) \<and> two_decimals (format_2f z)
   \<and> take 1 (fst (set_sensor_data env em ''acceleration'' 0 9.8 0))
     = [Write em (''sensor set acceleration 0.00:9.80:0.00'' @ [CHR 0x0A])]"
proof -
  have first: "take 1 (fst (set_sensor_data env em s a b c)) = [Write em (sensor_command s a b c)]"
    for s a b c
    by (simp add: set_sensor_data_cases split: sum.splits exn.splits)
  have general: "take 1 (fst (set_sensor_data env em sensor x y z))
     = [Write em (''sensor set '' @ sensor @ '' '' @ format_2f x @ '':'' @ format_2f y
                    @ '':'' @ format_2f z @ [CHR 0x0A])]"
    unfolding first by (simp add: sensor_command_def newline_def)
  have rest: "take 1 (fst (set_sensor_data env em ''acceleration'' 0 9.8 0))
     = [Write em (''sensor set acceleration 0.00:9.80:0.00'' @ [CHR 0x0A])]"
    unfolding first using reset_command_line by simp
  show ?thesis
    using general rest two_decimals_format_2f by blast
qed

theorem sensor_update_wire_format_witness:
  "take 1 (fst (set_sensor_data \<lparr>write_res = Inr (), ack_res = Inr ''OK''\<rparr>
                  (Telnet ''localhost'' 5554) ''acceleration'' 0 9.8 0))
     = [Write (Telnet ''localhost'' 5554) (''sensor set acceleration 0.00:9.80:0.00'' @ [CHR 0x0A])]
   \<and> two_decimals ''9.80''"
  using sensor_update_wire_format [of "\<lparr>write_res = Inr (), ack_res = Inr ''OK''\<rparr>"
      "Telnet ''localhost'' 5554" "''acceleration''" 0 "9.8" 0]
  by (simp add: format_2f_rest)



text \<open>
  C8. The length of the bar is monotonic in the value plotted: for \<open>v1 < v2\<close> the bar of
  \<open>v1\<close> is no longer than the bar of \<open>v2\<close>. Values outside the range are clamped first,
  so every bar has between 0 and 50 characters, and the plotter returns normally for
  every value: the division never has a zero divisor.
\<close>

theorem bar_length_monotonic:
  "v1 < v2 \<Longrightarrow>
     (\<exists>b1 b2. bar_length v1 = ([], Inr b1) \<and> bar_length v2 = ([], Inr b2)
        \<and> 0 \<le> b1 \<and> b1 \<le> b2 \<and> b2 \<le> 50)
     \<and> snd (plot_data_point v1) = Inr () \<and> snd (plot_data_point v2) = Inr ()"
  using spec_bar_mono [of v1 v2] spec_bar_range [of v1] spec_bar_range [of v2]
  by (simp add: bar_length_value plot_data_point_returns)

theorem bar_length_monotonic_witness:
  "(5::real) < 9.8 \<and> bar_length 5 = ([], Inr 0) \<and> bar_length 9.8 = ([], Inr 25)"
proof -
  have lt: "(5::real) < 9.8" by simp
  have "spec_bar 5 = 0"
    by (simp add: spec_bar_def spec_clamp_def)
  with bar_length_monotonic [OF lt] lt show ?thesis
    by (simp add: bar_length_value spec_bar_rest)
qed

text \<open>
  C2, as the code has it. When the token is absent or empty, \<open>connect_to_emulator\<close>
  never writes to the peer and never yields a session; but the check comes after the
  connection has been opened and the greeting read. When both of these calls return, the
  calls made are exactly: open, read the greeting, report the missing token; the result
  is \<^verbatim>\<open>None\<close>.
\<close>

theorem missing_token_sends_nothing:
  assumes "token_missing auth_token"
  shows "\<not> list_ex is_write (fst (connect_to_emulator env host port auth_token))
    \<and> (\<forall>s. snd (connect_to_emulator env host port auth_token) \<noteq> Inr (Some s))
    \<and> (open_res env = Inr () \<longrightarrow> (\<exists>g. greeting_res env = Inr g) \<longrightarrow>
         connect_to_emulator env host port auth_token
           = ([Open host port 10, ReadUntil (Telnet host port) ''OK'' 10,
               Print ''Authentication token is missing...''], Inr None))"
  using assms
  by (cases "open_res env"; cases "greeting_res env")
     (auto simp: connect_to_emulator_def call_def print_def ret_def Let_def split: exn.splits)

theorem missing_token_sends_nothing_witness:
  "token_missing None
   \<and> connect_to_emulator
       \<lparr>open_res = Inr (), greeting_res = Inr ''Android Console OK'',
        auth_write_res = Inr (), auth_reply_res = Inr ''OK''\<rparr>
       ''localhost'' 5554 None
     = ([Open ''localhost'' 5554 10, ReadUntil (Telnet ''localhost'' 5554) ''OK'' 10,
         Print ''Authentication token is missing...''], Inr None)"
proof -
  have m: "token_missing None"
    by (simp add: token_missing_def)
  show ?thesis
    using m missing_token_sends_nothing [OF m,
        of "\<lparr>open_res = Inr (), greeting_res = Inr ''Android Console OK'',
             auth_write_res = Inr (), auth_reply_res = Inr ''OK''\<rparr>" "''localhost''" 5554]
    by simp
qed

text \<open>
  C2, as the claim states it, fails: with an empty token and a peer that answers, two
  network calls are made before the failure is reported (the connection is opened and
  the greeting is read).
\<close>

theorem empty_token_contacts_peer:
  "connect_to_emulator
     \<lparr>open_res = Inr (), greeting_res = Inr ''Android Console OK'',
      auth_write_res = Inr (), auth_reply_res = Inr ''OK''\<rparr>
     ''localhost'' 5554 (Some [])
   = ([Open ''localhost'' 5554 10, ReadUntil (Telnet ''localhost'' 5554) ''OK'' 10,
       Print ''Authentication token is missing...''], Inr None)
   \<and> filter is_network_call
       (fst (connect_to_emulator
          \<lparr>open_res = Inr (), greeting_res = Inr ''Android Console OK'',
           auth_write_res = Inr (), auth_reply_res = Inr ''OK''\<rparr>
          ''localhost'' 5554 (Some [])))
     \<noteq> []"
  by (simp add: connect_to_emulator_def call_def print_def ret_def token_missing_def)

text \<open>
  C5. With a token that is not empty, a connection that opens and a greeting that
  arrives, the client writes exactly the line \<^verbatim>\<open>auth <token>\n\<close> and reads the reply up
  to \<^verbatim>\<open>OK\<close>. If the reply contains \<^verbatim>\<open>KO\<close> as a substring, it reports the failure and
  yields no session; otherwise (in particular when greeting and reply end in \<^verbatim>\<open>OK\<close> and
  hold no \<^verbatim>\<open>KO\<close>) it yields the session.
\<close>

theorem authentication_exchange:
  assumes "t \<noteq> []"
    and "open_res env = Inr ()" and "greeting_res env = Inr g"
    and "auth_write_res env = Inr ()" and "auth_reply_res env = Inr r"
  shows "connect_to_emulator env host port (Some t)
     = ([Open host port 10,
         ReadUntil (Telnet host port) ''OK'' 10,
         Write (Telnet host port) (''auth '' @ t @ [CHR 0x0A]),
         ReadUntil (Telnet host port) ''OK'' 10,
         Print (if bytes_in ''KO'' r then ''Authentication failed.''
                else ''Connected and authenticated with emulator on port ''
                       @ str_int port @ ''.'')],
        Inr (if bytes_in ''KO'' r then None else Some (Telnet host port)))
    \<and> (bytes_in ''KO'' r \<longleftrightarrow> (\<exists>p s. r = p @ ''KO'' @ s))"
  using assms
  by (simp add: connect_to_emulator_def call_def print_def ret_def token_missing_def
      token_text_def newline_def bytes_in_iff Let_def)

theorem authentication_exchange_witness:
  "''secret'' \<noteq> []
   \<and> snd (connect_to_emulator
        \<lparr>open_res = Inr (), greeting_res = Inr ''Android Console OK'',
         auth_write_res = Inr (), auth_reply_res = Inr ''OK''\<rparr>
        ''localhost'' 5554 (Some ''secret'')) = Inr (Some (Telnet ''localhost'' 5554))
   \<and> snd (connect_to_emulator
        \<lparr>open_res = Inr (), greeting_res = Inr ''Android Console OK'',
         auth_write_res = Inr (), auth_reply_res = Inr ''KO: bad token''\<rparr>
        ''localhost'' 5554 (Some ''secret'')) = Inr None"
  using authentication_exchange [of "''secret''"
      "\<lparr>open_res = Inr (), greeting_res = Inr ''Android Console OK'',
        auth_write_res = Inr (), auth_reply_res = Inr ''OK''\<rparr>"
      "''Android Console OK''" "''OK''" "''localhost''" 5554]
    authentication_exchange [of "''secret''"
      "\<lparr>open_res = Inr (), greeting_res = Inr ''Android Console OK'',
        auth_write_res = Inr (), auth_reply_res = Inr ''KO: bad token''\<rparr>"
      "''Android Console OK''" "''KO: bad token''" "''localhost''" 5554]
  by simp








end
